theory Spec2Isabelle
  imports Complex_Main "HOL-Library.Word"
begin

section \<open>Machine types\<close>

text \<open>
  \<^verbatim>\<open>size_t\<close> is the unsigned 64-bit integer of the usual LP64 targets and
  \<^verbatim>\<open>int\<close> the 32-bit two's complement integer. Words carry no sign: \<open>sint\<close>
  reads a word as signed, the order \<open><\<close> on words is the unsigned one.
\<close>

type_synonym size_t = "64 word"
type_synonym c_int = "32 word"

text \<open>\<^verbatim>\<open>std::numeric_limits< size_t >::max()\<close>\<close>

definition size_t_max :: size_t where
  "size_t_max = - 1"

text \<open>
  The implicit conversion and the \<^verbatim>\<open>static_cast\<close> from \<^verbatim>\<open>int\<close> to
  \<^verbatim>\<open>size_t\<close> (the value modulo \<open>2 ^ 64\<close>, that is sign extension), and the
  \<^verbatim>\<open>static_cast\<close> from \<^verbatim>\<open>size_t\<close> to \<^verbatim>\<open>int\<close> (the low 32 bits).
\<close>

definition int_to_size_t :: "c_int \<Rightarrow> size_t" where
  "int_to_size_t e = scast e"

definition size_t_to_int :: "size_t \<Rightarrow> c_int" where
  "size_t_to_int v = ucast v"

section \<open>Index pair (\<^verbatim>\<open>idx_t\<close>, lss\_utilities.hpp)\<close>

record idx_t =
  i :: size_t
  j :: size_t

text \<open>The constructor \<^verbatim>\<open>idx_t(_i, _j)\<close> and its default \<^verbatim>\<open>idx_t()\<close>.\<close>

definition idx :: "size_t \<Rightarrow> size_t \<Rightarrow> idx_t" where
  "idx a b = \<lparr>i = a, j = b\<rparr>"

definition idx_default :: idx_t where
  "idx_default = idx size_t_max size_t_max"

text \<open>\<^verbatim>\<open>operator<\<close>: \<^verbatim>\<open>i<_other.i? true : i>_other.i? false : (j<_other.j)\<close>\<close>

definition idx_less :: "idx_t \<Rightarrow> idx_t \<Rightarrow> bool" where
  "idx_less p other =
     (if i p < i other then True
      else if i p > i other then False
      else j p < j other)"

text \<open>\<^verbatim>\<open>operator>\<close>: \<^verbatim>\<open>idx_t(_other) < *this\<close>\<close>

definition idx_greater :: "idx_t \<Rightarrow> idx_t \<Rightarrow> bool" where
  "idx_greater p other = idx_less other p"

text \<open>\<^verbatim>\<open>operator==\<close> and \<^verbatim>\<open>operator!=\<close>\<close>

definition idx_eq :: "idx_t \<Rightarrow> idx_t \<Rightarrow> bool" where
  "idx_eq p other = (i p = i other \<and> j p = j other)"

definition idx_neq :: "idx_t \<Rightarrow> idx_t \<Rightarrow> bool" where
  "idx_neq p other = (i p \<noteq> i other \<or> j p \<noteq> j other)"

text \<open>\<^verbatim>\<open>invalidate\<close> assigns the default pair.\<close>

definition invalidate :: "idx_t \<Rightarrow> idx_t" where
  "invalidate p = idx_default"

text \<open>\<^verbatim>\<open>is_valid_size\<close>: \<^verbatim>\<open>operator>(idx_t(0,0)) && operator<(idx_t())\<close>\<close>

definition is_valid_size :: "idx_t \<Rightarrow> bool" where
  "is_valid_size p = (idx_greater p (idx 0 0) \<and> idx_less p idx_default)"

definition is_square_size :: "idx_t \<Rightarrow> bool" where
  "is_square_size p = (i p = j p)"

definition is_diagonal :: "idx_t \<Rightarrow> bool" where
  "is_diagonal p = is_square_size p"

section \<open>Vector transformations (lss\_utilities.hpp)\<close>

text \<open>
  Every transformation is a static \<^verbatim>\<open>apply(v, e)\<close> that changes the vector
  \<^verbatim>\<open>v\<close> in place; the model returns the vector after the call. The list
  \<^verbatim>\<open>transform_list_t< Transf, TransfNested >\<close> applies the nested list first and
  \<^verbatim>\<open>Transf\<close> after it, handing the same \<^verbatim>\<open>int e\<close> to both.
\<close>

type_synonym transf = "size_t list \<Rightarrow> c_int \<Rightarrow> size_t list"

definition transform_list_t_end :: "size_t list \<Rightarrow> size_t \<Rightarrow> size_t list" where
  "transform_list_t_end v e = v"

definition transform_list_t :: "transf \<Rightarrow> transf \<Rightarrow> transf" where
  "transform_list_t Transf TransfNested v e = Transf (TransfNested v e) e"

text \<open>
  \<^verbatim>\<open>std::sort\<close> on unsigned integers yields the ascending arrangement of the
  elements; \<^verbatim>\<open>std::unique\<close> followed by \<^verbatim>\<open>erase\<close> keeps the first element of
  every run of equal neighbours.
\<close>

definition vector_sort_unique :: transf where
  "vector_sort_unique v e = remdups_adj (sort v)"

text \<open>\<^verbatim>\<open>v.insert(v.begin(), e)\<close> with \<^verbatim>\<open>size_t e\<close>\<close>

definition vector_element_push_front :: "size_t list \<Rightarrow> size_t \<Rightarrow> size_t list" where
  "vector_element_push_front v e = e # v"


text \<open>The predicate \<^verbatim>\<open>equal_to\<close> and the erase-remove of the elements it accepts.\<close>

definition equal_to :: "size_t \<Rightarrow> size_t \<Rightarrow> bool" where
  "equal_to elem x = (elem = x)"

definition vector_element_remove :: transf where
  "vector_element_remove v e = filter (\<lambda>x. \<not> equal_to (int_to_size_t e) x) v"

text \<open>
  \<^verbatim>\<open>std::for_each(first, last, f)\<close> calls \<^verbatim>\<open>f\<close> on a reference to each element
  and drops what \<^verbatim>\<open>f\<close> returns. A functor is modelled as a function from the
  element to the pair of the element after the call and the returned value.
\<close>

definition for_each :: "('a \<Rightarrow> 'a \<times> 'r) \<Rightarrow> 'a list \<Rightarrow> 'a list" where
  "for_each f v = map (\<lambda>x. fst (f x)) v"

text \<open>
  \<^verbatim>\<open>add_value::operator()(size_t &v) const\<close> returns
  \<^verbatim>\<open>static_cast< size_t >(static_cast< int >(v)+diff)\<close> and does not assign to
  \<^verbatim>\<open>v\<close>.
\<close>

definition add_value :: "c_int \<Rightarrow> size_t \<Rightarrow> size_t \<times> size_t" where
  "add_value diff v = (v, int_to_size_t (size_t_to_int v + diff))"

definition vector_add_value :: transf where
  "vector_add_value v e = for_each (add_value e) v"

text \<open>
  \<^verbatim>\<open>base_conversion_t::operator()(int& v)\<close> is \<^verbatim>\<open>return (v+=diff)\<close>: it assigns
  through the reference and returns the new value.
\<close>

definition base_conversion_t :: "c_int \<Rightarrow> c_int \<Rightarrow> c_int \<times> c_int" where
  "base_conversion_t diff v = (v + diff, v + diff)"


definition vector_sorted_diagonal_first_t :: transf where
  "vector_sorted_diagonal_first_t =
     transform_list_t (\<lambda>v e. vector_element_push_front v (int_to_size_t e))
       (transform_list_t vector_sort_unique
         (transform_list_t vector_element_remove
           (\<lambda>v e. transform_list_t_end v (int_to_size_t e))))"

section \<open>Generic reading of files (lss\_utilities.hpp)\<close>

text \<open>
  Failures of the read functions: \<^verbatim>\<open>std::out_of_range\<close> from \<^verbatim>\<open>substr\<close>,
  the \<^verbatim>\<open>std::runtime_error\<close> "file format not detected" carrying the filename,
  a write past the end of the destination of \<^verbatim>\<open>std::transform\<close>
  (undefined behaviour in the source, kept apart here), and the
  \<^verbatim>\<open>std::length_error\<close> of a vector asked to hold more elements than its
  \<^verbatim>\<open>max_size()\<close> (\<^verbatim>\<open>std::bad_alloc\<close> in older libraries).
\<close>

datatype read_error =
    Out_of_range
  | Format_not_detected string
  | Out_of_bounds
  | Too_long

text \<open>
  \<^verbatim>\<open>fname.find_last_of(".")\<close> gives the position of the last dot, or
  \<^verbatim>\<open>npos\<close> (here \<open>None\<close>) when there is none.
\<close>

fun find_last_of :: "string \<Rightarrow> char \<Rightarrow> nat option" where
  "find_last_of [] c = None"
| "find_last_of (x # xs) c =
     (case find_last_of xs c of
        Some k \<Rightarrow> Some (Suc k)
      | None \<Rightarrow> if x = c then Some 0 else None)"

text \<open>
  \<^verbatim>\<open>fname.substr(pos)\<close> throws \<^verbatim>\<open>std::out_of_range\<close> when \<^verbatim>\<open>pos\<close> is
  beyond the length, which \<^verbatim>\<open>npos\<close> always is.
\<close>

definition substr :: "string \<Rightarrow> nat option \<Rightarrow> read_error + string" where
  "substr s pos =
     (case pos of
        None \<Rightarrow> Inl Out_of_range
      | Some k \<Rightarrow> if k > length s then Inl Out_of_range else Inr (drop k s))"

text \<open>
  The three backends are declared, not defined, in this header: they are parameters.
  A backend gets references to \<^verbatim>\<open>size\<close> and to the storage and returns a
  \<^verbatim>\<open>bool\<close>; the model returns the \<^verbatim>\<open>bool\<close> with what it left in both. The
  element type \<open>'d\<close> stands for \<^verbatim>\<open>double\<close>.
\<close>

type_synonym 'd dense_reader =
  "string \<Rightarrow> bool \<Rightarrow> idx_t \<Rightarrow> 'd list list \<Rightarrow> bool \<times> idx_t \<times> 'd list list"

type_synonym 'd sparse_reader =
  "string \<Rightarrow> bool \<Rightarrow> c_int \<Rightarrow> idx_t \<Rightarrow> 'd list \<Rightarrow> c_int list \<Rightarrow> c_int list
     \<Rightarrow> bool \<times> idx_t \<times> 'd list \<times> c_int list \<times> c_int list"

text \<open>
  The if-chain "read file contents" of \<^verbatim>\<open>read_dense\<close>: the extension is
  compared with the three literals in turn, the first match calls its backend, no
  match throws. The value is what the called backend returned.
\<close>

definition read_dense_contents ::
  "'d dense_reader \<Rightarrow> 'd dense_reader \<Rightarrow> 'd dense_reader \<Rightarrow>
   string \<Rightarrow> bool \<Rightarrow> idx_t \<Rightarrow> 'd list list \<Rightarrow> read_error + (bool \<times> idx_t \<times> 'd list list)" where
  "read_dense_contents MatrixMarket HarwellBoeing CSR fname roworiented sz storage =
     (case substr fname (find_last_of fname (CHR ''.'')) of
        Inl e \<Rightarrow> Inl e
      | Inr ext \<Rightarrow>
          if ext = ''.mtx'' then Inr (MatrixMarket fname roworiented sz storage)
          else if ext = ''.rua'' then Inr (HarwellBoeing fname roworiented sz storage)
          else if ext = ''.csr'' then Inr (CSR fname roworiented sz storage)
          else Inl (Format_not_detected fname))"

definition read_sparse_contents ::
  "'d sparse_reader \<Rightarrow> 'd sparse_reader \<Rightarrow> 'd sparse_reader \<Rightarrow>
   string \<Rightarrow> bool \<Rightarrow> c_int \<Rightarrow> idx_t \<Rightarrow> 'd list \<Rightarrow> c_int list \<Rightarrow> c_int list \<Rightarrow>
   read_error + (bool \<times> idx_t \<times> 'd list \<times> c_int list \<times> c_int list)" where
  "read_sparse_contents MatrixMarket HarwellBoeing CSR fname roworiented base sz storage ia ja =
     (case substr fname (find_last_of fname (CHR ''.'')) of
        Inl e \<Rightarrow> Inl e
      | Inr ext \<Rightarrow>
          if ext = ''.mtx'' then Inr (MatrixMarket fname roworiented base sz storage ia ja)
          else if ext = ''.rua'' then Inr (HarwellBoeing fname roworiented base sz storage ia ja)
          else if ext = ''.csr'' then Inr (CSR fname roworiented base sz storage ia ja)
          else Inl (Format_not_detected fname))"

text \<open>
  \<^verbatim>\<open>std::transform(first, last, d_first, op)\<close> overwrites the destination from
  its start; a source longer than the destination writes past its end.
\<close>

definition transform :: "('d \<Rightarrow> 'a) \<Rightarrow> 'd list \<Rightarrow> 'a list \<Rightarrow> read_error + 'a list" where
  "transform op src dst =
     (if length src > length dst then Inl Out_of_bounds
      else Inr (map op src @ drop (length src) dst))"

text \<open>
  The conversion loop of \<^verbatim>\<open>read_dense\<close>: row \<^verbatim>\<open>i\<close> of \<^verbatim>\<open>another_a\<close> is
  transformed into row \<^verbatim>\<open>i\<close> of \<^verbatim>\<open>a\<close>, for every row of \<^verbatim>\<open>another_a\<close>.
\<close>

fun transform_rows ::
  "('d \<Rightarrow> 'a) \<Rightarrow> 'd list list \<Rightarrow> 'a list list \<Rightarrow> read_error + 'a list list" where
  "transform_rows op [] dst = Inr dst"
| "transform_rows op (r # rs) [] = Inl Out_of_bounds"
| "transform_rows op (r # rs) (d # ds) =
     (case transform op r d of
        Inl e \<Rightarrow> Inl e
      | Inr d' \<Rightarrow>
          (case transform_rows op rs ds of
             Inl e \<Rightarrow> Inl e
           | Inr ds' \<Rightarrow> Inr (d' # ds')))"

text \<open>
  \<^verbatim>\<open>read_dense< T >\<close> is modelled at its two shapes. With \<^verbatim>\<open>T\<close> equal to
  \<^verbatim>\<open>double\<close> no conversion is needed and the backend writes into \<^verbatim>\<open>a\<close>
  itself. Both end in \<^verbatim>\<open>return true\<close>. The value is the returned \<^verbatim>\<open>bool\<close>
  with \<^verbatim>\<open>size\<close> and \<^verbatim>\<open>a\<close> after the call.
\<close>

definition read_dense_double ::
  "'d dense_reader \<Rightarrow> 'd dense_reader \<Rightarrow> 'd dense_reader \<Rightarrow>
   string \<Rightarrow> bool \<Rightarrow> idx_t \<Rightarrow> 'd list list \<Rightarrow> read_error + (bool \<times> idx_t \<times> 'd list list)" where
  "read_dense_double MatrixMarket HarwellBoeing CSR fname roworiented sz a0 =
     (case read_dense_contents MatrixMarket HarwellBoeing CSR fname roworiented sz a0 of
        Inl e \<Rightarrow> Inl e
      | Inr (ok, sz', storage) \<Rightarrow> Inr (True, sz', storage))"

text \<open>
  With any other \<^verbatim>\<open>T\<close> the backend fills the local \<^verbatim>\<open>another_a\<close>, which
  starts empty; \<^verbatim>\<open>a\<close> is assigned a grid of \<^verbatim>\<open>T()\<close> of the reported size
  and the rows are converted into it. \<open>cast\<close> is
  \<^verbatim>\<open>storage_conversion_t< double, T >\<close> and \<open>dflt\<close> is \<^verbatim>\<open>T()\<close>.

  The statement \<^verbatim>\<open>a.assign(rows, std::vector< T >(cols, T()))\<close> first builds the
  row of \<^verbatim>\<open>cols\<close> elements and then assigns \<^verbatim>\<open>rows\<close> copies of it; either
  step throws when the count is beyond the \<^verbatim>\<open>max_size()\<close> of its vector type.
  Both limits depend on \<^verbatim>\<open>T\<close> and on the library: \<open>max_size_T\<close> is that of
  \<^verbatim>\<open>std::vector< T >\<close> and \<open>max_size_rows\<close> that of
  \<^verbatim>\<open>std::vector< std::vector< T > >\<close>.
\<close>

definition read_dense ::
  "('d \<Rightarrow> 'a) \<Rightarrow> 'a \<Rightarrow> nat \<Rightarrow> nat \<Rightarrow> 'd dense_reader \<Rightarrow> 'd dense_reader \<Rightarrow> 'd dense_reader \<Rightarrow>
   string \<Rightarrow> bool \<Rightarrow> idx_t \<Rightarrow> 'a list list \<Rightarrow> read_error + (bool \<times> idx_t \<times> 'a list list)" where
  "read_dense cast dflt max_size_T max_size_rows MatrixMarket HarwellBoeing CSR
       fname roworiented sz a0 =
     (case read_dense_contents MatrixMarket HarwellBoeing CSR fname roworiented sz [] of
        Inl e \<Rightarrow> Inl e
      | Inr (ok, sz', another_a) \<Rightarrow>
          (let rows = unat (if roworiented then i sz' else j sz');
               cols = unat (if roworiented then j sz' else i sz')
           in if cols > max_size_T then Inl Too_long
              else if rows > max_size_rows then Inl Too_long
              else
                (case transform_rows cast another_a (replicate rows (replicate cols dflt)) of
                   Inl e \<Rightarrow> Inl e
                 | Inr a1 \<Rightarrow> Inr (True, sz', a1))))"

text \<open>\<^verbatim>\<open>read_sparse< T >\<close>, in the same two shapes.\<close>

definition read_sparse_double ::
  "'d sparse_reader \<Rightarrow> 'd sparse_reader \<Rightarrow> 'd sparse_reader \<Rightarrow>
   string \<Rightarrow> bool \<Rightarrow> c_int \<Rightarrow> idx_t \<Rightarrow> 'd list \<Rightarrow> c_int list \<Rightarrow> c_int list \<Rightarrow>
   read_error + (bool \<times> idx_t \<times> 'd list \<times> c_int list \<times> c_int list)" where
  "read_sparse_double MatrixMarket HarwellBoeing CSR fname roworiented base sz a0 ia ja =
     (case read_sparse_contents MatrixMarket HarwellBoeing CSR fname roworiented base sz a0 ia ja of
        Inl e \<Rightarrow> Inl e
      | Inr (ok, sz', storage, ia', ja') \<Rightarrow> Inr (True, sz', storage, ia', ja'))"

definition read_sparse ::
  "('d \<Rightarrow> 'a) \<Rightarrow> 'a \<Rightarrow> 'd sparse_reader \<Rightarrow> 'd sparse_reader \<Rightarrow> 'd sparse_reader \<Rightarrow>
   string \<Rightarrow> bool \<Rightarrow> c_int \<Rightarrow> idx_t \<Rightarrow> 'a list \<Rightarrow> c_int list \<Rightarrow> c_int list \<Rightarrow>
   read_error + (bool \<times> idx_t \<times> 'a list \<times> c_int list \<times> c_int list)" where
  "read_sparse cast dflt MatrixMarket HarwellBoeing CSR fname roworiented base sz a0 ia ja =
     (case read_sparse_contents MatrixMarket HarwellBoeing CSR fname roworiented base sz [] ia ja of
        Inl e \<Rightarrow> Inl e
      | Inr (ok, sz', another_a, ia', ja') \<Rightarrow>
          (case transform cast another_a (replicate (length another_a) dflt) of
             Inl e \<Rightarrow> Inl e
           | Inr a1 \<Rightarrow> Inr (True, sz', a1, ia', ja')))"

text \<open>
  A backend that cannot parse its file: it reports \<^verbatim>\<open>false\<close> and leaves its
  outputs as they were.
\<close>

definition failing_dense_reader :: "'d dense_reader" where
  "failing_dense_reader fname roworiented sz storage = (False, sz, storage)"

definition failing_sparse_reader :: "'d sparse_reader" where
  "failing_sparse_reader fname roworiented base sz storage ia ja =
     (False, sz, storage, ia, ja)"

section \<open>Linear system storage and the LAPACK solver (LAPACK.hpp)\<close>

text \<open>
  \<^verbatim>\<open>dense_matrix_v\<close> is declared in a header that is not among the sources.
  \<^verbatim>\<open>solve\<close> uses its flat buffer \<^verbatim>\<open>a\<close> and its \<^verbatim>\<open>size()\<close>, an
  \<^verbatim>\<open>idx_t\<close>. The element type \<open>'a\<close> is \<^verbatim>\<open>T\<close>.
\<close>

record 'a dense_matrix_v =
  a :: "'a list"
  m_size :: idx_t

text \<open>
  Modelled from the spec: \<^verbatim>\<open>dense_matrix_v::swap\<close>, absent from the sources.
  "The former right-hand-side buffer becomes the solution buffer (the role is
  transferred, not copied)": the two matrices exchange their whole content. The value
  is the pair of the receiver and the argument after the call.
\<close>

definition swap :: "'a dense_matrix_v \<Rightarrow> 'a dense_matrix_v \<Rightarrow> 'a dense_matrix_v \<times> 'a dense_matrix_v" where
  "swap p q = (q, p)"

text \<open>
  Modelled from the spec: \<^verbatim>\<open>dense_matrix_v::clear\<close>, absent from the sources.
  "The right-hand-side buffer is then cleared to empty": the buffer holds no element.
  The spec does not say which extent an emptied matrix records; it is taken to be
  \<open>(0, 0)\<close>, and no statement below depends on it.
\<close>

definition clear :: "'a dense_matrix_v \<Rightarrow> 'a dense_matrix_v" where
  "clear m = m\<lparr>a := [], m_size := idx 0 0\<rparr>"

text \<open>The three members \<^verbatim>\<open>m_A\<close>, \<^verbatim>\<open>m_b\<close>, \<^verbatim>\<open>m_x\<close> of \<^verbatim>\<open>LAPACK< T >\<close>.\<close>

record 'a LAPACK =
  m_A :: "'a dense_matrix_v"
  m_b :: "'a dense_matrix_v"
  m_x :: "'a dense_matrix_v"

text \<open>
  Modelled from the spec: \<^verbatim>\<open>linearsystem::size(d)\<close>, absent from the sources.
  "Derive problem size n (matrix extent), number of right-hand sides nrhs":
  \<^verbatim>\<open>size(0)\<close> is the row count of the matrix and \<^verbatim>\<open>size(2)\<close> the column count
  of the right-hand side. \<^verbatim>\<open>solve\<close> asks for no other \<^verbatim>\<open>d\<close>.
\<close>

definition size_0 :: "'a LAPACK \<Rightarrow> size_t" where
  "size_0 s = i (m_size (m_A s))"

definition size_2 :: "'a LAPACK \<Rightarrow> size_t" where
  "size_2 s = j (m_size (m_b s))"

text \<open>\<^verbatim>\<open>typeid(T)\<close>, as far as \<^verbatim>\<open>solve\<close> tells types apart.\<close>

datatype precision = Double | Float | Other_type

text \<open>
  The native routines \<^verbatim>\<open>dgesv_\<close> and \<^verbatim>\<open>sgesv_\<close> are external: they are
  parameters. Through its pointers a routine reads
  \<^verbatim>\<open>(n, nrhs, a, lda, ipiv, b, ldb, info)\<close> and may write the matrix buffer, the
  pivot buffer, the right-hand-side buffer and \<^verbatim>\<open>info\<close>; the model returns these
  four after the call.
\<close>

type_synonym 'a gesv =
  "c_int \<Rightarrow> c_int \<Rightarrow> 'a list \<Rightarrow> c_int \<Rightarrow> c_int list \<Rightarrow> 'a list \<Rightarrow> c_int \<Rightarrow> c_int
     \<Rightarrow> 'a list \<times> c_int list \<times> 'a list \<times> c_int"

datatype routine = Dgesv | Sgesv

text \<open>
  What \<^verbatim>\<open>solve\<close> throws. The constructor of \<^verbatim>\<open>std::vector< int > ipiv(n)\<close>
  converts \<^verbatim>\<open>n\<close> to \<^verbatim>\<open>size_t\<close>; a negative \<^verbatim>\<open>n\<close> becomes a length
  beyond \<^verbatim>\<open>max_size()\<close> and the constructor throws (\<^verbatim>\<open>std::length_error\<close> or
  \<^verbatim>\<open>std::bad_alloc\<close>, by library version). The others are the
  \<^verbatim>\<open>std::runtime_error\<close> with one of the four messages.
\<close>

datatype solve_error =
    Length_error
  | Not_square
  | Precision_not_implemented
  | Invalid_argument c_int
  | Singular c_int

text \<open>The chain of conditionals that builds \<^verbatim>\<open>msg\<close>, for \<^verbatim>\<open>err\<close> other than 0.\<close>

definition msg :: "c_int \<Rightarrow> solve_error" where
  "msg err =
     (if err = - 17 then Not_square
      else if err = - 42 then Precision_not_implemented
      else if sint err < 0 then Invalid_argument err
      else Singular err)"

text \<open>
  The outcome of a call of \<^verbatim>\<open>solve\<close>: the exception thrown, if any, the native
  routines called, in order, and the members after the call (also after a throw, since
  the object outlives it).
\<close>

record 'a solve_result =
  thrown :: "solve_error option"
  calls :: "routine list"
  after :: "'a LAPACK"

text \<open>
  The dispatch of \<^verbatim>\<open>solve\<close>: the value of \<^verbatim>\<open>err\<close>, the routines called and
  the members after it. A routine works in place on \<^verbatim>\<open>m_A.a\<close> and
  \<^verbatim>\<open>m_b.a\<close>; \<^verbatim>\<open>ipiv\<close> is local and dropped.
\<close>

definition dispatch ::
  "precision \<Rightarrow> 'a gesv \<Rightarrow> 'a gesv \<Rightarrow> c_int \<Rightarrow> c_int \<Rightarrow> c_int list \<Rightarrow> 'a LAPACK
     \<Rightarrow> c_int \<times> routine list \<times> 'a LAPACK" where
  "dispatch T dgesv sgesv n nrhs ipiv s =
     (if \<not> is_square_size (m_size (m_A s)) then (- 17, [], s)
      else if T = Double then
        (case dgesv n nrhs (a (m_A s)) n ipiv (a (m_b s)) n 0 of
           (a', ipiv', b', info) \<Rightarrow>
             (info, [Dgesv], s\<lparr>m_A := (m_A s)\<lparr>a := a'\<rparr>, m_b := (m_b s)\<lparr>a := b'\<rparr>\<rparr>))
      else if T = Float then
        (case sgesv n nrhs (a (m_A s)) n ipiv (a (m_b s)) n 0 of
           (a', ipiv', b', info) \<Rightarrow>
             (info, [Sgesv], s\<lparr>m_A := (m_A s)\<lparr>a := a'\<rparr>, m_b := (m_b s)\<lparr>a := b'\<rparr>\<rparr>))
      else (- 42, [], s))"

definition solve :: "precision \<Rightarrow> 'a gesv \<Rightarrow> 'a gesv \<Rightarrow> 'a LAPACK \<Rightarrow> 'a solve_result" where
  "solve T dgesv sgesv s =
     (let n = size_t_to_int (size_0 s);
          nrhs = size_t_to_int (size_2 s)
      in if sint n < 0 then \<lparr>thrown = Some Length_error, calls = [], after = s\<rparr>
         else
           (case dispatch T dgesv sgesv n nrhs (replicate (nat (sint n)) 0) s of
              (err, called, s1) \<Rightarrow>
                if err \<noteq> 0 then \<lparr>thrown = Some (msg err), calls = called, after = s1\<rparr>
                else
                  (case swap (m_b s1) (m_x s1) of
                     (b1, x1) \<Rightarrow>
                       \<lparr>thrown = None, calls = called,
                        after = s1\<lparr>m_b := clear b1, m_x := x1\<rparr>\<rparr>)))"

text \<open>
  \<^verbatim>\<open>operator=\<close>: \<^verbatim>\<open>A() = _other.m_A; return *this;\<close>

  The assignment of one \<^verbatim>\<open>dense_matrix_v\<close> to another belongs to the absent
  header; it is taken to copy the whole matrix, buffer and size, as the assignment of
  a value type does.
\<close>

definition assign :: "'a LAPACK \<Rightarrow> 'a LAPACK \<Rightarrow> 'a LAPACK" where
  "assign s other = s\<lparr>m_A := m_A other\<rparr>"

text \<open>
  A stand-in for the external routine, for systems of order 2 with one right-hand side:
  Gaussian elimination with partial pivoting as \<^verbatim>\<open>dgesv_\<close> documents it. The
  matrix buffer (column-major) is overwritten with the factors: the unit lower factor
  below the diagonal, the upper factor on and above it. \<^verbatim>\<open>info\<close> is the position
  of a zero pivot, or 0; buffers of any other length are refused with a negative
  \<^verbatim>\<open>info\<close>. The entries are rationals, so that the arithmetic is exact.
\<close>

definition gesv_2 :: "rat gesv" where
  "gesv_2 n nrhs A lda ipiv B ldb info =
     (case A of
        [a11, a21, a12, a22] \<Rightarrow>
          (case B of
             [b1, b2] \<Rightarrow>
               (let sw = \<bar>a11\<bar> < \<bar>a21\<bar>;
                    p11 = (if sw then a21 else a11); p21 = (if sw then a11 else a21);
                    p12 = (if sw then a22 else a12); p22 = (if sw then a12 else a22);
                    c1 = (if sw then b2 else b1); c2 = (if sw then b1 else b2)
                in if p11 = 0 then (A, [1, 2], B, 1)
                   else
                     (let l = p21 / p11; u22 = p22 - l * p12
                      in if u22 = 0 then ([p11, l, p12, u22], [if sw then 2 else 1, 2], B, 2)
                         else
                           (let x2 = (c2 - l * c1) / u22; x1 = (c1 - p12 * x2) / p11
                            in ([p11, l, p12, u22], [if sw then 2 else 1, 2], [x1, x2], 0))))
           | _ \<Rightarrow> (A, ipiv, B, - 6))
      | _ \<Rightarrow> (A, ipiv, B, - 3))"

text \<open>Example systems: a matrix of extent \<open>(r, c)\<close> over a buffer, and a system.\<close>

definition matrix :: "size_t \<Rightarrow> size_t \<Rightarrow> 'a list \<Rightarrow> 'a dense_matrix_v" where
  "matrix r c buf = \<lparr>a = buf, m_size = idx r c\<rparr>"

definition system :: "'a dense_matrix_v \<Rightarrow> 'a dense_matrix_v \<Rightarrow> 'a dense_matrix_v \<Rightarrow> 'a LAPACK" where
  "system A b x = \<lparr>m_A = A, m_b = b, m_x = x\<rparr>"

text \<open>
  The system of the spec (\<open>A = diag(2,3)\<close>, \<open>b = (4,9)\<close>), a system whose matrix
  exchanges the two unknowns, a system with a \<open>2 \<times> 3\<close> matrix, and a system whose
  matrix has \<open>2 ^ 31\<close> rows and one column.
\<close>

definition diag_system :: "rat LAPACK" where
  "diag_system = system (matrix 2 2 [2, 0, 0, 3]) (matrix 2 1 [4, 9]) (matrix 2 1 [0, 0])"

definition exchange_system :: "rat LAPACK" where
  "exchange_system = system (matrix 2 2 [0, 1, 1, 0]) (matrix 2 1 [4, 9]) (matrix 2 1 [0, 0])"

definition wide_system :: "rat LAPACK" where
  "wide_system = system (matrix 2 3 [1, 2, 2, 4, 0, 0]) (matrix 2 1 [3, 4]) (matrix 3 1 [0, 0, 0])"

definition tall_system :: "rat LAPACK" where
  "tall_system =
     system (matrix (2 ^ 31) 1 (replicate (2 ^ 31) 0)) (matrix (2 ^ 31) 1 (replicate (2 ^ 31) 0))
       (matrix 1 1 [0])"

section \<open>Index pairs: order and valid sizes\<close>

lemma idx_less_lex: "idx_less p q \<longleftrightarrow> i p < i q \<or> (i p = i q \<and> j p < j q)"
  by (auto simp: idx_less_def)

lemma size_t_pos: "(0 < (w::size_t)) = (w \<noteq> 0)"
  by (simp add: word_gt_0)

lemma size_t_below_max: "((w::size_t) < - 1) = (w \<noteq> - 1)"
  by (metis word_order.not_eq_extremum)

lemma idx_less_irrefl: "\<not> idx_less p p"
  by (simp add: idx_less_lex)

lemma idx_less_trans: "idx_less p q \<Longrightarrow> idx_less q r \<Longrightarrow> idx_less p r"
  by (auto simp: idx_less_lex)

lemma idx_less_total: "p \<noteq> q \<Longrightarrow> idx_less p q \<or> idx_less q (p::idx_t)"
  by (cases p, cases q) (auto simp: idx_less_lex)

text \<open>
  Claim C8. The comparison \<^verbatim>\<open>operator<\<close> of index pairs is a strict total order:
  irreflexive, transitive, and any two distinct pairs are comparable, never both ways.
  It is the lexicographic row-major order: \<open>(a,b) < (c,d)\<close> iff \<open>a < c\<close>, or
  \<open>a = c\<close> and \<open>b < d\<close>. In particular \<open>(2,3) < (2,5) < (3,0)\<close>. Distinctness
  is what \<^verbatim>\<open>operator!=\<close> decides.
\<close>

theorem idx_less_strict_total_order:
  "\<not> idx_less p p
   \<and> (idx_less p q \<and> idx_less q r \<longrightarrow> idx_less p r)
   \<and> (p \<noteq> q \<longrightarrow> idx_less p q \<or> idx_less q p)
   \<and> (idx_eq p q \<longleftrightarrow> p = q) \<and> (idx_neq p q \<longleftrightarrow> p \<noteq> q)
   \<and> \<not> (idx_less p q \<and> idx_less q p)
   \<and> (idx_less p q \<longleftrightarrow> i p < i q \<or> (i p = i q \<and> j p < j q))
   \<and> idx_less (idx 2 3) (idx 2 5) \<and> idx_less (idx 2 5) (idx 3 0)"
proof -
  have "idx_less (idx 2 3) (idx 2 5)" and "idx_less (idx 2 5) (idx 3 0)"
    by (simp_all add: idx_less_def idx_def)
  moreover have "idx_eq p q \<longleftrightarrow> p = q" and "idx_neq p q \<longleftrightarrow> p \<noteq> q"
    by (cases p, cases q, auto simp: idx_eq_def idx_neq_def)+
  moreover have "\<not> (idx_less p q \<and> idx_less q p)"
    by (auto simp: idx_less_lex)
  ultimately show ?thesis
    using idx_less_irrefl [of p] idx_less_trans [of p q r] idx_less_total [of p q]
      idx_less_lex [of p q]
    by blast
qed

text \<open>
  The order at the pairs of the spec: from \<open>(2,3) < (2,5)\<close> and \<open>(2,5) < (3,0)\<close>
  transitivity gives \<open>(2,3) < (3,0)\<close>, and the distinct pairs \<open>(3,0)\<close> and
  \<open>(2,3)\<close> are comparable one way only.
\<close>

theorem idx_less_strict_total_order_witness:
  "idx_less (idx 2 3) (idx 2 5) \<and> idx_less (idx 2 5) (idx 3 0) \<and> idx_less (idx 2 3) (idx 3 0)
   \<and> idx 3 0 \<noteq> idx 2 3 \<and> \<not> idx_less (idx 3 0) (idx 2 3)"
proof -
  have ne: "idx 3 0 \<noteq> idx 2 3"
    by (simp add: idx_def)
  show ?thesis
    using ne idx_less_strict_total_order [of "idx 2 3" "idx 2 5" "idx 3 0"]
      idx_less_strict_total_order [of "idx 3 0" "idx 2 3" "idx 2 3"]
    by blast
qed

text \<open>
  Claim C4, as stated, fails: \<^verbatim>\<open>is_valid_size\<close> compares with \<^verbatim>\<open>operator<\<close>,
  which is lexicographic, so the pair \<open>(0, 1)\<close>, whose row is 0, lies strictly
  between \<open>(0, 0)\<close> and the default pair and is a valid size.
\<close>

theorem is_valid_size_zero_row_counterexample:
  "i (idx 0 1) = 0 \<and> is_valid_size (idx 0 1)"
  by (simp add: is_valid_size_def idx_greater_def idx_less_def idx_def idx_default_def
      size_t_max_def size_t_below_max)

text \<open>
  Claim C4, amended. \<^verbatim>\<open>is_valid_size\<close> holds exactly for the pairs that are
  lexicographically above \<open>(0, 0)\<close> and below the default (sentinel) pair, that is
  for every pair other than these two. It is false for \<open>(0, 0)\<close> and for the
  default pair; for a pair \<open>(0, k)\<close> it is true exactly when \<open>k\<close> is not 0.
\<close>

theorem is_valid_size_lexicographic:
  "is_valid_size p = (p \<noteq> idx 0 0 \<and> p \<noteq> idx_default)
   \<and> is_valid_size p = (idx_less (idx 0 0) p \<and> idx_less p idx_default)
   \<and> is_valid_size (idx 0 k) = (k \<noteq> 0)
   \<and> \<not> is_valid_size idx_default"
proof -
  have eq: "is_valid_size q = (q \<noteq> idx 0 0 \<and> q \<noteq> idx_default)" for q
    by (cases q) (auto simp: is_valid_size_def idx_greater_def idx_less_lex idx_def
        idx_default_def size_t_max_def size_t_pos size_t_below_max)
  have lex: "is_valid_size p = (idx_less (idx 0 0) p \<and> idx_less p idx_default)"
    by (simp add: is_valid_size_def idx_greater_def)
  have "idx 0 k \<noteq> idx_default" and "(idx 0 k = idx 0 0) = (k = 0)"
    by (simp_all add: idx_def idx_default_def size_t_max_def)
  then have row0: "is_valid_size (idx 0 k) = (k \<noteq> 0)"
    by (simp add: eq)
  have "\<not> is_valid_size idx_default"
    by (simp add: eq)
  with eq [of p] lex row0 show ?thesis
    by blast
qed

section \<open>Vector transformations: the pipelines\<close>

lemma remdups_adj_strict:
  "sorted xs \<Longrightarrow> sorted_wrt (<) (remdups_adj (xs::'a::linorder list))"
proof (induction xs rule: remdups_adj.induct)
  case (3 x y xs)
  then show ?case by auto
qed simp_all

lemma sort_unique_strict: "sorted_wrt (<) (vector_sort_unique v e)"
  by (simp add: vector_sort_unique_def remdups_adj_strict)

lemma sort_unique_set: "set (vector_sort_unique v e) = set v"
  by (simp add: vector_sort_unique_def)




lemma vector_sorted_diagonal_first_t_unfold:
  "vector_sorted_diagonal_first_t v e =
     int_to_size_t e # vector_sort_unique (filter (\<lambda>x. x \<noteq> int_to_size_t e) v) e"
  by (simp add: vector_sorted_diagonal_first_t_def transform_list_t_def transform_list_t_end_def
      vector_element_push_front_def vector_element_remove_def equal_to_def eq_commute)



text \<open>
  A pivot that is not negative is stored with its value; a negative one wraps around
  (\<open>-1\<close> becomes the largest \<^verbatim>\<open>size_t\<close>).
\<close>

lemma int_to_size_t_nonneg:
  assumes "0 \<le> sint e"
  shows "uint (int_to_size_t e) = sint e"
proof -
  have "sint e < 2 ^ 31"
    using sint_lt [of e] by simp
  moreover have "(2::int) ^ 31 \<le> 2 ^ 64"
    by simp
  ultimately have "sint e < 2 ^ 64"
    by (rule less_le_trans)
  with assms have tb: "take_bit 64 (sint e) = sint e"
    by (simp only: take_bit_int_eq_self)
  have "uint (scast e :: 64 word) = take_bit 64 (sint e)"
    by (simp only: scast_eq uint_word_of_int_eq len_bit0 len_num1) simp
  with tb show ?thesis
    by (simp only: int_to_size_t_def)
qed

lemma int_to_size_t_minus_one: "int_to_size_t (- 1) = size_t_max"
  by (simp add: int_to_size_t_def size_t_max_def)

lemma int_to_size_t_value: "uint (int_to_size_t e) = sint e mod 2 ^ 64"
proof -
  have "uint (scast e :: 64 word) = take_bit 64 (sint e)"
    by (simp only: scast_eq uint_word_of_int_eq len_bit0 len_num1) simp
  then show ?thesis
    by (simp only: int_to_size_t_def take_bit_eq_mod)
qed

lemma int_to_size_t_back: "size_t_to_int (int_to_size_t e) = e"
  unfolding int_to_size_t_def size_t_to_int_def
  by (rule bit_word_eqI) (auto simp: bit_ucast_iff bit_signed_take_bit_iff bit_simps)

text \<open>
  Claim C5. For every index vector \<open>v\<close> and every pivot \<open>e\<close> (an \<^verbatim>\<open>int\<close>), the
  sorted-diagonal-first pipeline yields a first element \<open>p\<close> followed by a strictly
  ascending, duplicate-free remainder in which \<open>p\<close> does not occur. The first element
  is the pivot that was passed: its value is that of \<open>e\<close> modulo \<open>2 ^ 64\<close>, so it
  is \<open>e\<close> itself for every pivot that is not negative, and its low 32 bits read
  back as \<open>e\<close>. The remainder holds exactly the elements of \<open>v\<close> other than \<open>p\<close>.
\<close>

theorem sorted_diagonal_first_pipeline:
  "\<exists>p rest. vector_sorted_diagonal_first_t v e = p # rest
      \<and> uint p = sint e mod 2 ^ 64
      \<and> (0 \<le> sint e \<longrightarrow> uint p = sint e)
      \<and> size_t_to_int p = e
      \<and> sorted_wrt (<) rest \<and> distinct rest \<and> p \<notin> set rest
      \<and> set rest = set v - {p}"
proof -
  let ?p = "int_to_size_t e"
  let ?rest = "vector_sort_unique (filter (\<lambda>x. x \<noteq> ?p) v) e"
  have strict: "sorted_wrt (<) ?rest"
    by (rule sort_unique_strict)
  then have dist: "distinct ?rest"
    by (simp add: strict_sorted_iff)
  have elems: "set ?rest = set v - {?p}"
    by (auto simp: sort_unique_set)
  then have fresh: "?p \<notin> set ?rest"
    by simp
  have shape: "vector_sorted_diagonal_first_t v e = ?p # ?rest"
    by (rule vector_sorted_diagonal_first_t_unfold)
  from shape int_to_size_t_value int_to_size_t_nonneg int_to_size_t_back
    strict dist fresh elems
  show ?thesis
    by blast
qed

text \<open>
  The pipeline on \<open>[5, 3, 3, 7, 1]\<close> with the pivot 3: the pivot comes first, once,
  and the other elements follow in ascending order.
\<close>

theorem sorted_diagonal_first_pipeline_witness:
  "(0::int) \<le> sint (3 :: c_int)
   \<and> vector_sorted_diagonal_first_t [5, 3, 3, 7, 1] 3 = [3, 1, 5, 7]"
proof -
  have nonneg: "(0::int) \<le> sint (3 :: c_int)"
    by simp
  have run: "vector_sorted_diagonal_first_t [5, 3, 3, 7, 1] 3
      = int_to_size_t 3 # [1, 5, 7]"
    by (simp add: vector_sorted_diagonal_first_t_unfold vector_sort_unique_def
        int_to_size_t_def word_le_nat_alt)
  from sorted_diagonal_first_pipeline [of "[5, 3, 3, 7, 1]" 3]
  obtain p rest where
    "vector_sorted_diagonal_first_t [5, 3, 3, 7, 1] 3 = p # rest"
    and "0 \<le> sint (3 :: c_int) \<longrightarrow> uint p = sint (3 :: c_int)"
    by blast
  with nonneg run have "rest = [1, 5, 7]" and "uint p = 3"
    by simp_all
  then have "p = 3"
    by (simp add: word_uint_eq_iff)
  with run \<open>vector_sorted_diagonal_first_t [5, 3, 3, 7, 1] 3 = p # rest\<close> \<open>rest = [1, 5, 7]\<close>
    nonneg
  show ?thesis
    by simp
qed



section \<open>Vector transformations: the offset shift\<close>

text \<open>
  \<^verbatim>\<open>vector_add_value\<close> leaves every vector as it is, whatever the delta; the
  functor \<^verbatim>\<open>base_conversion_t\<close>, run by the same \<^verbatim>\<open>for_each\<close>, does shift.
\<close>

lemma vector_add_value_identity: "vector_add_value v e = v"
  by (simp add: vector_add_value_def for_each_def add_value_def)

lemma for_each_base_conversion: "for_each (base_conversion_t d) v = map (\<lambda>x. x + d) v"
  by (simp add: for_each_def base_conversion_t_def)

text \<open>
  Claim C3 asks that \<^verbatim>\<open>vector_add_value\<close> add the delta to every element. The code
  does not: on \<open>[1, 2, 3]\<close> with the delta 1 the vector stays \<open>[1, 2, 3]\<close>, although
  the functor computes the shifted value (3 for the element 2) and returns it to
  \<^verbatim>\<open>for_each\<close>, which drops it.
\<close>

theorem vector_add_value_no_shift:
  "vector_add_value [1, 2, 3] 1 = [1, 2, 3] \<and> snd (add_value 1 2) = 3"
  by (simp add: vector_add_value_def for_each_def add_value_def int_to_size_t_def size_t_to_int_def)

section \<open>Generic reading: the returned flag\<close>

text \<open>Whenever a read function returns at all, it returns \<^verbatim>\<open>true\<close>.\<close>

lemma read_dense_double_true:
  "read_dense_double mm hb csr fname ro sz a0 = Inr (ok, out) \<Longrightarrow> ok"
  by (auto simp: read_dense_double_def split: sum.splits prod.splits)

lemma read_dense_true:
  "read_dense cast dflt max_size_T max_size_rows mm hb csr fname ro sz a0 = Inr (ok, out) \<Longrightarrow> ok"
  by (auto simp: read_dense_def Let_def split: sum.splits prod.splits if_splits)

lemma read_sparse_double_true:
  "read_sparse_double mm hb csr fname ro base sz a0 ia ja = Inr (ok, out) \<Longrightarrow> ok"
  by (auto simp: read_sparse_double_def split: sum.splits prod.splits)

lemma read_sparse_true:
  "read_sparse cast dflt mm hb csr fname ro base sz a0 ia ja = Inr (ok, out) \<Longrightarrow> ok"
  by (auto simp: read_sparse_def split: sum.splits prod.splits)

text \<open>
  With a size left at the default pair by a failing backend, the grid that
  \<^verbatim>\<open>read_dense\<close> assigns is beyond any \<^verbatim>\<open>max_size()\<close>, and the call throws.
\<close>

lemma read_dense_default_size_too_long:
  assumes "max_size_T < 2 ^ 64 - 1"
  shows "read_dense cast dflt max_size_T max_size_rows
       failing_dense_reader failing_dense_reader failing_dense_reader
       ''A.mtx'' ro idx_default [] = Inl Too_long"
proof -
  have "unat size_t_max = 2 ^ 64 - 1"
    unfolding size_t_max_def by (simp add: unsigned_minus_1_eq_mask mask_eq_exp_minus_1)
  with assms show ?thesis
    by (simp add: read_dense_def read_dense_contents_def substr_def failing_dense_reader_def
        idx_default_def idx_def)
qed

text \<open>
  Claim C1 asks that \<^verbatim>\<open>read_dense< T >\<close> and \<^verbatim>\<open>read_sparse< T >\<close> return what
  the selected backend reported. The code does not: on the file name \<open>A.mtx\<close>, with
  a Matrix Market backend that reports \<^verbatim>\<open>false\<close>, both functions return
  \<^verbatim>\<open>true\<close>, with \<^verbatim>\<open>T\<close> equal to \<^verbatim>\<open>double\<close> and with any other \<^verbatim>\<open>T\<close>.
\<close>

theorem read_returns_true_on_backend_failure:
  "fst (failing_dense_reader ''A.mtx'' True idx_default []) = False
   \<and> read_dense_double failing_dense_reader failing_dense_reader failing_dense_reader
        ''A.mtx'' True idx_default [] = Inr (True, idx_default, [])
   \<and> read_dense cast dflt max_size_T max_size_rows
        failing_dense_reader failing_dense_reader failing_dense_reader
        ''A.mtx'' True (idx 0 0) [] = Inr (True, idx 0 0, [])
   \<and> fst (failing_sparse_reader ''A.mtx'' True 0 idx_default [] [] []) = False
   \<and> read_sparse_double failing_sparse_reader failing_sparse_reader failing_sparse_reader
        ''A.mtx'' True 0 idx_default [] [] [] = Inr (True, idx_default, [], [], [])
   \<and> read_sparse cast dflt failing_sparse_reader failing_sparse_reader failing_sparse_reader
        ''A.mtx'' True 0 idx_default [] [] [] = Inr (True, idx_default, [], [], [])"
  by (simp add: read_dense_double_def read_dense_def read_dense_contents_def
      read_sparse_double_def read_sparse_def read_sparse_contents_def substr_def
      failing_dense_reader_def failing_sparse_reader_def transform_def idx_def)

section \<open>The LAPACK solver\<close>

lemmas example_defs = system_def matrix_def idx_def is_square_size_def size_0_def size_2_def
  size_t_to_int_def diag_system_def exchange_system_def wide_system_def tall_system_def

lemma dispatch_not_square:
  "\<not> is_square_size (m_size (m_A s)) \<Longrightarrow> dispatch T dgesv sgesv n nrhs ipiv s = (- 17, [], s)"
  by (simp add: dispatch_def)

lemma dispatch_other_type:
  "is_square_size (m_size (m_A s)) \<Longrightarrow>
     dispatch Other_type dgesv sgesv n nrhs ipiv s = (- 42, [], s)"
  by (simp add: dispatch_def)

lemma msg_codes: "msg (- 17) = Not_square" "msg (- 42) = Precision_not_implemented"
  by (simp_all add: msg_def)

lemma solve_negative_n:
  "sint (size_t_to_int (size_0 s)) < 0 \<Longrightarrow>
     solve T dgesv sgesv s = \<lparr>thrown = Some Length_error, calls = [], after = s\<rparr>"
  by (simp add: solve_def)

lemma solve_not_square_result:
  "\<not> is_square_size (m_size (m_A s)) \<Longrightarrow> \<not> sint (size_t_to_int (size_0 s)) < 0 \<Longrightarrow>
     solve T dgesv sgesv s = \<lparr>thrown = Some Not_square, calls = [], after = s\<rparr>"
  by (simp add: solve_def dispatch_not_square msg_codes)

lemma solve_other_type_result:
  "is_square_size (m_size (m_A s)) \<Longrightarrow> \<not> sint (size_t_to_int (size_0 s)) < 0 \<Longrightarrow>
     solve Other_type dgesv sgesv s =
       \<lparr>thrown = Some Precision_not_implemented, calls = [], after = s\<rparr>"
  by (simp add: solve_def dispatch_other_type msg_codes)

text \<open>
  On a matrix that is not square \<^verbatim>\<open>solve\<close> never calls a native routine and always
  throws; what it throws is the dimension error as long as the row count converted to
  \<^verbatim>\<open>int\<close> is not negative. The \<open>2 \<times> 3\<close> system gets the dimension error.
\<close>

lemma solve_not_square_outcome:
  assumes "\<not> is_square_size (m_size (m_A s))"
  shows "calls (solve T dgesv sgesv s) = []
     \<and> thrown (solve T dgesv sgesv s) =
         Some (if sint (size_t_to_int (size_0 s)) < 0 then Length_error else Not_square)"
proof (cases "sint (size_t_to_int (size_0 s)) < 0")
  case True
  then show ?thesis by (simp add: solve_negative_n)
next
  case False
  with assms show ?thesis by (simp add: solve_not_square_result)
qed

lemma solve_wide_system:
  "solve Double gesv_2 gesv_2 wide_system
     = \<lparr>thrown = Some Not_square, calls = [], after = wide_system\<rparr>"
proof -
  have "\<not> is_square_size (m_size (m_A wide_system))"
    and "\<not> sint (size_t_to_int (size_0 wide_system)) < 0"
    by (simp_all add: example_defs)
  then show ?thesis
    by (rule solve_not_square_result)
qed

text \<open>
  Claim C7 asks that \<^verbatim>\<open>solve\<close> on a matrix that is not square raise the dimension
  error and call no native routine. The code sets \<^verbatim>\<open>err = -17\<close> for that, but it
  builds the pivot buffer \<^verbatim>\<open>std::vector< int > ipiv(n)\<close> from the narrowed
  \<^verbatim>\<open>n\<close> before it looks at the shape. For the matrix of \<open>2 ^ 31\<close> rows and one
  column, which is not square, \<^verbatim>\<open>n\<close> is the most negative \<^verbatim>\<open>int\<close>: the
  constructor throws, and the dimension error is not raised. No native routine is
  called and the members are untouched.
\<close>

theorem solve_tall_system_misses_dimension_error:
  "\<not> is_square_size (m_size (m_A tall_system))
   \<and> sint (size_t_to_int (size_0 tall_system)) = - (2 ^ 31)
   \<and> solve Double gesv_2 gesv_2 tall_system
       = \<lparr>thrown = Some Length_error, calls = [], after = tall_system\<rparr>
   \<and> thrown (solve Double gesv_2 gesv_2 tall_system) \<noteq> Some Not_square"
proof -
  have shape: "\<not> is_square_size (m_size (m_A tall_system))"
    by (simp add: example_defs)
  have n: "sint (size_t_to_int (size_0 tall_system)) = - (2 ^ 31)"
    by (simp add: example_defs)
  then have "sint (size_t_to_int (size_0 tall_system)) < 0"
    by simp
  then have "solve Double gesv_2 gesv_2 tall_system
      = \<lparr>thrown = Some Length_error, calls = [], after = tall_system\<rparr>"
    by (rule solve_negative_n)
  with shape n show ?thesis
    by simp
qed

text \<open>
  Claim C9. When \<^verbatim>\<open>solve\<close> is called on a matrix that is not square, or with a
  numeric type that is neither \<^verbatim>\<open>double\<close> nor \<^verbatim>\<open>float\<close>, it throws, it has
  called no native routine, and the members \<^verbatim>\<open>m_A\<close>, \<^verbatim>\<open>m_b\<close> and \<^verbatim>\<open>m_x\<close>
  are exactly as before the call.
\<close>

theorem solve_early_failure_keeps_state:
  assumes "\<not> is_square_size (m_size (m_A s)) \<or> T = Other_type"
  shows "thrown (solve T dgesv sgesv s) \<noteq> None
     \<and> calls (solve T dgesv sgesv s) = []
     \<and> after (solve T dgesv sgesv s) = s"
proof (cases "sint (size_t_to_int (size_0 s)) < 0")
  case True
  then show ?thesis by (simp add: solve_negative_n)
next
  case nonneg: False
  show ?thesis
  proof (cases "is_square_size (m_size (m_A s))")
    case True
    with assms have "T = Other_type" by simp
    with True nonneg show ?thesis by (simp add: solve_other_type_result)
  next
    case False
    with nonneg show ?thesis by (simp add: solve_not_square_result)
  qed
qed

text \<open>
  Both error paths: the \<open>2 \<times> 3\<close> system in single precision, and the square
  system of the spec with an unsupported numeric type.
\<close>

theorem solve_early_failure_keeps_state_witness:
  "\<not> is_square_size (m_size (m_A wide_system))
   \<and> thrown (solve Float gesv_2 gesv_2 wide_system) \<noteq> None
   \<and> after (solve Float gesv_2 gesv_2 wide_system) = wide_system
   \<and> thrown (solve Other_type gesv_2 gesv_2 diag_system) \<noteq> None
   \<and> after (solve Other_type gesv_2 gesv_2 diag_system) = diag_system"
proof -
  have sq: "\<not> is_square_size (m_size (m_A wide_system))"
    by (simp add: example_defs)
  then have h: "\<not> is_square_size (m_size (m_A wide_system)) \<or> Float = Other_type"
    by simp
  have h': "\<not> is_square_size (m_size (m_A diag_system)) \<or> Other_type = Other_type"
    by simp
  show ?thesis
    using sq solve_early_failure_keeps_state [OF h, of gesv_2 gesv_2]
      solve_early_failure_keeps_state [OF h', of gesv_2 gesv_2]
    by simp
qed

text \<open>
  What a successful call does to the matrix is what the routine does to its buffer: a
  routine that hands the buffer back as it got it leaves \<^verbatim>\<open>m_A\<close> unchanged.
\<close>

lemma solve_keeps_matrix_if_routine_does:
  assumes "is_square_size (m_size (m_A s))"
    and "0 \<le> sint (size_t_to_int (size_0 s))"
    and "dgesv (size_t_to_int (size_0 s)) (size_t_to_int (size_2 s)) (a (m_A s))
        (size_t_to_int (size_0 s)) (replicate (nat (sint (size_t_to_int (size_0 s)))) 0)
        (a (m_b s)) (size_t_to_int (size_0 s)) 0 = (a (m_A s), ipiv', b', 0)"
  shows "m_A (after (solve Double dgesv sgesv s)) = m_A s"
  using assms by (simp add: solve_def dispatch_def swap_def clear_def)

text \<open>
  Claim C2, as stated, fails: the native routine is handed the matrix buffer itself and
  may write it. With a routine that factorises in place, the system whose matrix
  exchanges the two unknowns solves with status 0 and its matrix buffer is no longer
  what it was (it holds the factors of the row-exchanged matrix, the identity).
\<close>

theorem solve_matrix_unchanged_counterexample:
  "is_square_size (m_size (m_A exchange_system))
   \<and> thrown (solve Double gesv_2 gesv_2 exchange_system) = None
   \<and> a (m_A (after (solve Double gesv_2 gesv_2 exchange_system))) \<noteq> a (m_A exchange_system)"
  by (simp add: solve_def dispatch_def swap_def clear_def example_defs gesv_2_def)

text \<open>
  Claim C2, amended. For every square system on which the native routine of its
  precision reports status 0, \<^verbatim>\<open>solve\<close> returns without throwing, having called
  that routine once; afterwards the solution \<^verbatim>\<open>x\<close> is the former right-hand side
  with the buffer the routine produced, the buffer of \<^verbatim>\<open>b\<close> is empty, and the
  matrix \<^verbatim>\<open>A\<close> has its former size and the buffer the routine left in it: \<^verbatim>\<open>solve\<close>
  itself changes nothing of \<^verbatim>\<open>A\<close>.
\<close>

theorem solve_success:
  assumes square: "is_square_size (m_size (m_A s))"
    and fits: "0 \<le> sint (size_t_to_int (size_0 s))"
    and routine: "(T = Double \<and> native = dgesv \<and> r = Dgesv)
        \<or> (T = Float \<and> native = sgesv \<and> r = Sgesv)"
    and status: "native (size_t_to_int (size_0 s)) (size_t_to_int (size_2 s)) (a (m_A s))
        (size_t_to_int (size_0 s)) (replicate (nat (sint (size_t_to_int (size_0 s)))) 0)
        (a (m_b s)) (size_t_to_int (size_0 s)) 0 = (a', ipiv', b', 0)"
  shows "thrown (solve T dgesv sgesv s) = None
     \<and> calls (solve T dgesv sgesv s) = [r]
     \<and> m_x (after (solve T dgesv sgesv s)) = (m_b s)\<lparr>a := b'\<rparr>
     \<and> a (m_b (after (solve T dgesv sgesv s))) = []
     \<and> m_A (after (solve T dgesv sgesv s)) = (m_A s)\<lparr>a := a'\<rparr>"
  using routine
proof
  assume "T = Double \<and> native = dgesv \<and> r = Dgesv"
  with square fits status show ?thesis
    by (simp add: solve_def dispatch_def swap_def clear_def)
next
  assume "T = Float \<and> native = sgesv \<and> r = Sgesv"
  with square fits status show ?thesis
    by (simp add: solve_def dispatch_def swap_def clear_def)
qed

text \<open>
  The example of the spec: \<open>A = diag(2,3)\<close> and \<open>b = (4,9)\<close> give \<open>x = (2,3)\<close>,
  an empty \<open>b\<close>, and here the factors of \<open>A\<close> are \<open>A\<close> itself.
\<close>

theorem solve_success_witness:
  "thrown (solve Double gesv_2 gesv_2 diag_system) = None
   \<and> calls (solve Double gesv_2 gesv_2 diag_system) = [Dgesv]
   \<and> a (m_x (after (solve Double gesv_2 gesv_2 diag_system))) = [2, 3]
   \<and> a (m_b (after (solve Double gesv_2 gesv_2 diag_system))) = []
   \<and> m_A (after (solve Double gesv_2 gesv_2 diag_system)) = m_A diag_system"
proof -
  let ?s = "diag_system"
  have square: "is_square_size (m_size (m_A ?s))"
    by (simp add: example_defs)
  have fits: "0 \<le> sint (size_t_to_int (size_0 ?s))"
    by (simp add: example_defs)
  have routine: "(Double = Double \<and> gesv_2 = gesv_2 \<and> Dgesv = Dgesv)
      \<or> (Double = Float \<and> gesv_2 = gesv_2 \<and> Dgesv = Sgesv)"
    by simp
  have status: "gesv_2 (size_t_to_int (size_0 ?s)) (size_t_to_int (size_2 ?s)) (a (m_A ?s))
        (size_t_to_int (size_0 ?s)) (replicate (nat (sint (size_t_to_int (size_0 ?s)))) 0)
        (a (m_b ?s)) (size_t_to_int (size_0 ?s)) 0 = ([2, 0, 0, 3], [1, 2], [2, 3], 0)"
    by (simp add: example_defs gesv_2_def)
  have same: "(m_A ?s)\<lparr>a := [2, 0, 0, 3]\<rparr> = m_A ?s"
    by (simp add: example_defs)
  from solve_success [OF square fits routine status] same
  show ?thesis
    by simp
qed

text \<open>
  Claim C10. The assignment \<^verbatim>\<open>operator=\<close> between LAPACK systems copies the matrix
  \<^verbatim>\<open>m_A\<close> of the source; the right-hand side \<^verbatim>\<open>m_b\<close> and the solution \<^verbatim>\<open>m_x\<close>
  of the target stay as they were.
\<close>

theorem assign_copies_matrix_only:
  "m_A (assign s other) = m_A other
   \<and> m_b (assign s other) = m_b s
   \<and> m_x (assign s other) = m_x s"
  by (simp add: assign_def)

end
